theory Spec2Isabelle
  imports Complex_Main "HOL-Library.Sublist" "HOL-Library.Word"
begin

section \<open>Texts, values and outcomes\<close>

text \<open>
  A Python \<open>str\<close> is modelled as a \<open>string\<close>: a list of characters, each read as the code
  point of that number (0 to 255). Python integers are unbounded, so they are \<open>int\<close>.

  \<open>pyval\<close> has the values that \<open>ast.literal_eval\<close> can return: strings, bytes, integers,
  floats (the 64 bits of the double), complex numbers (two floats), the constants \<open>True\<close>,
  \<open>False\<close>, \<open>None\<close> and \<open>Ellipsis\<close>, lists, tuples, sets (the elements in the order in
  which the set is iterated) and dictionaries (the items in insertion order).
\<close>

datatype pyval =
    PStr string
  | PBytes string
  | PInt int
  | PFloat "64 word"
  | PComplex "64 word" "64 word"
  | PBool bool
  | PNone
  | PEllipsis
  | PList "pyval list"
  | PTuple "pyval list"
  | PSet "pyval list"
  | PDict "(pyval \<times> pyval) list"

text \<open>The exceptions; \<open>OtherError\<close> carries the name of any other exception class.\<close>

datatype py_error =
    SyntaxError
  | ValueError
  | TypeError
  | ZeroDivisionError
  | GatewayError
  | OtherError string

text \<open>
  A Python computation returns a value or raises. The third outcome, \<open>Unmodelled\<close>, is not
  a behaviour of Python: it marks an input on which a model of a library function says
  nothing (see \<open>py_literal_eval\<close>).
\<close>

datatype 'a result = Return 'a | Raise py_error | Unmodelled

section \<open>The world: model gateway calls and the display\<close>

text \<open>
  \<open>CLIENT.chat.completions.create(model=..., messages=..., [temperature=...])\<close> is a
  request; \<open>.choices[0].message.content\<close> of its response is the text that comes back.
\<close>

record request =
  model :: string
  messages :: "(string \<times> string) list"
  temperature :: "rat option"

text \<open>
  Every \<open>display(Markdown(...))\<close> of the source is an event, carrying the data its
  Markdown text is formatted from.
\<close>

datatype event =
    TitleShown string
  | PlanShown "string list"
  | QualityShown string rat
  | DraftingDone
  | CritiqueShown string
  | RuleShown
  | ReportHeadingShown
  | ReportShown string

record world =
  calls :: "request list"
  shown :: "event list"

text \<open>
  What the program takes from outside: the model gateway (the answer may depend on how many
  calls were made before, so the same prompt can be answered differently), the library
  function \<open>ast.literal_eval\<close>, the date printed by \<open>datetime.now().strftime("%Y-%m-%d")\<close>
  (indexed like the gateway), and Python's \<open>str()\<close> of a value that is not a \<open>str\<close>.
\<close>

record env =
  gateway :: "nat \<Rightarrow> request \<Rightarrow> string result"
  literal_eval :: "string \<Rightarrow> pyval result"
  today :: "nat \<Rightarrow> string"
  str_of :: "pyval \<Rightarrow> string"

type_synonym 'a io = "world \<Rightarrow> 'a result \<times> world"

definition io_return :: "'a \<Rightarrow> 'a io" where
  "io_return a w = (Return a, w)"

definition io_lift :: "'a result \<Rightarrow> 'a io" where
  "io_lift r w = (r, w)"

text \<open>Sequencing: an exception of the first computation ends the whole one.\<close>

definition io_bind :: "'a io \<Rightarrow> ('a \<Rightarrow> 'b io) \<Rightarrow> 'b io" where
  "io_bind m f w =
     (case m w of
        (Return a, w') \<Rightarrow> f a w'
      | (Raise e, w') \<Rightarrow> (Raise e, w')
      | (Unmodelled, w') \<Rightarrow> (Unmodelled, w'))"

definition chat :: "env \<Rightarrow> request \<Rightarrow> string io" where
  "chat e req w = (gateway e (length (calls w)) req, w\<lparr>calls := calls w @ [req]\<rparr>)"

definition display :: "event \<Rightarrow> unit io" where
  "display ev w = (Return (), w\<lparr>shown := shown w @ [ev]\<rparr>)"

text \<open>An f-string field \<open>{v}\<close>: a \<open>str\<close> is inserted as it is, any other value through \<open>str()\<close>.\<close>

definition fmt :: "env \<Rightarrow> pyval \<Rightarrow> string" where
  "fmt e v = (case v of PStr s \<Rightarrow> s | _ \<Rightarrow> str_of e v)"

text \<open>
  Iterating over a value (\<open>for s in plan\<close>): a list, tuple or set gives its elements, a
  dictionary its keys, a string its characters as one-character strings, bytes their
  numbers; numbers and constants are not iterable.
\<close>

definition py_iter :: "pyval \<Rightarrow> pyval list result" where
  "py_iter v =
     (case v of
        PList xs \<Rightarrow> Return xs
      | PTuple xs \<Rightarrow> Return xs
      | PSet xs \<Rightarrow> Return xs
      | PDict items \<Rightarrow> Return (map fst items)
      | PStr s \<Rightarrow> Return (map (\<lambda>c. PStr [c]) s)
      | PBytes bs \<Rightarrow> Return (map (\<lambda>c. PInt (of_char c)) bs)
      | _ \<Rightarrow> Raise TypeError)"

section \<open>The source-quality evaluator\<close>

subsection \<open>\<open>re.findall(r"(https?://[^\s)\]]+)", research_output)\<close>\<close>

text \<open>
  \<open>\s\<close> in a \<open>str\<close> pattern is Unicode whitespace; below 256 these are the code points
  9 to 13, 28 to 31, 32, 133 and 160.
\<close>

definition is_space :: "char \<Rightarrow> bool" where
  "is_space c = (of_char c \<in> {9, 10, 11, 12, 13, 28, 29, 30, 31, 32, 133, 160 :: nat})"

definition url_char :: "char \<Rightarrow> bool" where
  "url_char c = (\<not> is_space c \<and> c \<noteq> CHR '')'' \<and> c \<noteq> CHR '']'')"

text \<open>
  The pattern matched at the head of \<open>s\<close>: the scheme, then the longest non-empty run of
  characters of the class. The result is the match and the text after it.
\<close>

definition match_url :: "string \<Rightarrow> (string \<times> string) option" where
  "match_url s =
     (if prefix ''https://'' s \<and> takeWhile url_char (drop 8 s) \<noteq> [] then
        Some (''https://'' @ takeWhile url_char (drop 8 s), dropWhile url_char (drop 8 s))
      else if prefix ''http://'' s \<and> takeWhile url_char (drop 7 s) \<noteq> [] then
        Some (''http://'' @ takeWhile url_char (drop 7 s), dropWhile url_char (drop 7 s))
      else None)"

text \<open>
  \<open>findall\<close> scans from the left; after a match it goes on behind the match, otherwise one
  character further. It returns the matches in the order found, duplicates included.
\<close>

function findall_urls :: "string \<Rightarrow> string list" where
  "findall_urls [] = []"
| "findall_urls (c # cs) =
     (case match_url (c # cs) of
        Some (u, rest) \<Rightarrow> u # findall_urls rest
      | None \<Rightarrow> findall_urls cs)"
  by pat_completeness auto
termination
proof (relation "measure length")
  fix c :: char and cs u rest and x :: "string \<times> string"
  assume m: "match_url (c # cs) = Some x" and x: "(u, rest) = x"
  have d: "length (dropWhile url_char (drop n (c # cs))) \<le> length (c # cs) - n" for n
    using length_dropWhile_le [of url_char "drop n (c # cs)"] by simp
  have p: "prefix p (c # cs) \<Longrightarrow> length p \<le> length (c # cs)" for p
    by (rule prefix_length_le)
  from m x have "length rest < length (c # cs)"
    using d [of 8] d [of 7] p [of "''https://''"] p [of "''http://''"]
    by (auto simp: match_url_def split: if_splits)
  then show "(rest, c # cs) \<in> measure length" by simp
qed simp_all

subsection \<open>\<open>eval_error_analysis\<close>\<close>

definition preferred_domains :: "string list" where
  "preferred_domains =
     [''arxiv.org'', ''nature.com'', ''nasa.gov'', ''science.org'', ''mit.edu'']"

text \<open>\<open>[u for u in urls if any(dom in u for dom in preferred_domains)]\<close>\<close>

definition trusted_of :: "string list \<Rightarrow> string list" where
  "trusted_of urls = filter (\<lambda>u. list_ex (\<lambda>dom. sublist dom u) preferred_domains) urls"

text \<open>
  Python's \<open>/\<close> on integers raises on a zero divisor. The quotient is a float in the
  source; it is the exact ratio here. Rounding to a float is monotone and 0.5 is a float,
  so the comparison with 0.5 comes out the same for fewer than \<open>2 ^ 52\<close> URLs.
\<close>

definition truediv :: "nat \<Rightarrow> nat \<Rightarrow> rat result" where
  "truediv a b = (if b = 0 then Raise ZeroDivisionError else Return (of_nat a / of_nat b))"

text \<open>\<open>score = len(trusted) / len(urls) if urls else 0.0\<close>\<close>

definition score_of :: "string list \<Rightarrow> string list \<Rightarrow> rat result" where
  "score_of trusted urls =
     (if urls \<noteq> [] then truediv (length trusted) (length urls) else Return 0)"

text \<open>\<open>status = "PASS" if score > 0.5 else "FAIL (Low Credibility)"\<close>\<close>

definition status_of :: "rat \<Rightarrow> string" where
  "status_of score = (if score > 1 / 2 then ''PASS'' else ''FAIL (Low Credibility)'')"

definition eval_error_analysis :: "string \<Rightarrow> string io" where
  "eval_error_analysis research_output =
     (let urls = findall_urls research_output;
          trusted = trusted_of urls
      in io_bind (io_lift (score_of trusted urls)) (\<lambda>score.
           let status = status_of score
           in io_bind (display (QualityShown status score)) (\<lambda>_.
                io_return status)))"

section \<open>The planner\<close>

subsection \<open>\<open>re.search(r"\[.*\]", content, re.DOTALL)\<close>\<close>

text \<open>
  The search takes the leftmost position where the pattern matches, and \<open>.*\<close> is greedy
  and (with \<open>DOTALL\<close>) runs over every character: the match goes from the first \<open>[\<close> of
  the text to the last \<open>]\<close> of the text, when that \<open>]\<close> comes after that \<open>[\<close>; otherwise
  there is no match.
\<close>

definition search_list :: "string \<Rightarrow> string option" where
  "search_list content =
     (let s = dropWhile (\<lambda>c. c \<noteq> CHR ''['') content
      in if s \<noteq> [] \<and> CHR '']'' \<in> set (tl s)
         then Some (rev (dropWhile (\<lambda>c. c \<noteq> CHR '']'') (rev s)))
         else None)"

subsection \<open>\<open>ast.literal_eval\<close>, on a fragment of Python's expression syntax\<close>

text \<open>
  \<open>ast.literal_eval\<close> is a function of Python's standard library. The planner takes it
  from the environment (\<open>literal_eval\<close> of \<open>env\<close>), so that what is proved for every
  environment holds for the library's function. \<open>py_literal_eval\<close> below is a model of
  it on a fragment of the syntax, to evaluate the planner on concrete texts:
  \<^item> characters: space and tab between tokens; \<open>[\<close>, \<open>]\<close> and the comma; string literals in
    single or double quotes, without prefix, of printable ASCII characters other than the
    backslash; decimal integers without leading zeros; names of ASCII letters, digits and
    \<open>_\<close>, of which \<open>True\<close>, \<open>False\<close> and \<open>None\<close> are constants;
  \<^item> expressions: these atoms, adjacent string literals (concatenated), list displays,
    subscripts, and tuples written without parentheses.
  On every other text the model answers \<open>Unmodelled\<close>: a newline or any other character
  (so signs, floats, complex numbers, parentheses, dictionary and set displays), a
  keyword, a string prefix (so bytes), a triple quote, a number in another notation. The
  library accepts many of these texts; the model says nothing about them, and no general
  statement below rests on it. As the library does, the model
  parses first (\<open>SyntaxError\<close>) and then converts the tree, raising \<open>ValueError\<close> at the
  first node that is not a literal. CPython has limits (200 nested brackets, 4300 digits
  in an integer, the recursion depth); a text of at most 400 characters cannot reach them,
  and on a longer one the model answers \<open>Unmodelled\<close> as well.
\<close>

datatype token =
    LBrack
  | RBrack
  | Comma
  | TStr string
  | TNum nat
  | TConst pyval
  | TName string

definition is_digit :: "char \<Rightarrow> bool" where
  "is_digit c = (48 \<le> (of_char c :: nat) \<and> (of_char c :: nat) \<le> 57)"

definition is_name_start :: "char \<Rightarrow> bool" where
  "is_name_start c =
     ((65 \<le> (of_char c :: nat) \<and> (of_char c :: nat) \<le> 90)
      \<or> (97 \<le> (of_char c :: nat) \<and> (of_char c :: nat) \<le> 122)
      \<or> c = CHR ''_'')"

definition is_name_char :: "char \<Rightarrow> bool" where
  "is_name_char c = (is_name_start c \<or> is_digit c)"

definition is_quote :: "char \<Rightarrow> bool" where
  "is_quote c = (c = CHR 0x22 \<or> c = CHR 0x27)"

definition plain_char :: "char \<Rightarrow> bool" where
  "plain_char c =
     (32 \<le> (of_char c :: nat) \<and> (of_char c :: nat) \<le> 126 \<and> c \<noteq> CHR 0x5C)"

definition py_keywords :: "string list" where
  "py_keywords =
     [''and'', ''as'', ''assert'', ''async'', ''await'', ''break'', ''class'', ''continue'',
      ''def'', ''del'', ''elif'', ''else'', ''except'', ''finally'', ''for'', ''from'',
      ''global'', ''if'', ''import'', ''in'', ''is'', ''lambda'', ''nonlocal'', ''not'',
      ''or'', ''pass'', ''raise'', ''return'', ''try'', ''while'', ''with'', ''yield'']"

definition decimal :: "string \<Rightarrow> nat" where
  "decimal ds = foldl (\<lambda>n d. 10 * n + (of_char d - 48)) 0 ds"

definition name_token :: "string \<Rightarrow> token" where
  "name_token n =
     (if n = ''True'' then TConst (PBool True)
      else if n = ''False'' then TConst (PBool False)
      else if n = ''None'' then TConst PNone
      else TName n)"

definition cons_token :: "token \<Rightarrow> token list result \<Rightarrow> token list result" where
  "cons_token t r = (case r of Return ts \<Rightarrow> Return (t # ts) | Raise e \<Rightarrow> Raise e | Unmodelled \<Rightarrow> Unmodelled)"

function tokenize :: "string \<Rightarrow> token list result" where
  "tokenize [] = Return []"
| "tokenize (c # cs) =
     (if c = CHR '' '' \<or> c = CHR 0x09 then tokenize cs
      else if c = CHR ''['' then cons_token LBrack (tokenize cs)
      else if c = CHR '']'' then cons_token RBrack (tokenize cs)
      else if c = CHR '','' then cons_token Comma (tokenize cs)
      else if is_quote c then
        (if take 2 cs = [c, c] then Unmodelled
         else if \<not> list_all plain_char (takeWhile (\<lambda>d. d \<noteq> c) cs) then Unmodelled
         else if dropWhile (\<lambda>d. d \<noteq> c) cs = [] then Raise SyntaxError
         else cons_token (TStr (takeWhile (\<lambda>d. d \<noteq> c) cs))
                (tokenize (tl (dropWhile (\<lambda>d. d \<noteq> c) cs))))
      else if is_digit c then
        (if c = CHR ''0'' \<and> takeWhile is_digit cs \<noteq> [] then Unmodelled
         else if dropWhile is_digit cs \<noteq> [] \<and> is_name_start (hd (dropWhile is_digit cs))
         then Unmodelled
         else cons_token (TNum (decimal (c # takeWhile is_digit cs)))
                (tokenize (dropWhile is_digit cs)))
      else if is_name_start c then
        (if dropWhile is_name_char cs \<noteq> [] \<and> is_quote (hd (dropWhile is_name_char cs))
         then Unmodelled
         else if c # takeWhile is_name_char cs \<in> set py_keywords then Unmodelled
         else cons_token (name_token (c # takeWhile is_name_char cs))
                (tokenize (dropWhile is_name_char cs)))
      else Unmodelled)"
  by pat_completeness auto
termination
proof (relation "measure length")
  fix c :: char and cs :: string
  have "length (tl (dropWhile (\<lambda>d. d \<noteq> c) cs)) \<le> length (dropWhile (\<lambda>d. d \<noteq> c) cs)"
    by simp
  also have "\<dots> \<le> length cs"
    by (rule length_dropWhile_le)
  finally show "(tl (dropWhile (\<lambda>d. d \<noteq> c) cs), c # cs) \<in> measure length"
    by simp
qed (simp_all add: less_Suc_eq_le length_dropWhile_le)

text \<open>The syntax tree, with the node names of Python's \<open>ast\<close> module.\<close>

datatype ast =
    Constant pyval
  | Name string
  | List "ast list"
  | Tuple "ast list"
  | Subscript ast ast

text \<open>
  The parser reads the tokens from the left. Its state is the bracket being filled: the
  elements closed by a comma so far (last one first), the expression read since the last
  comma if any, and the enclosing brackets, each with the elements it had when the inner
  bracket opened. A \<open>[\<close> after an expression subscripts that expression; a \<open>[\<close> where an
  expression is expected opens a list display.
\<close>

datatype bracket = InList | InSubscript ast

type_synonym parser_state = "ast list \<times> ast option \<times> (bracket \<times> ast list) list"

definition elements :: "ast list \<Rightarrow> ast option \<Rightarrow> ast list" where
  "elements items cur = rev items @ (case cur of None \<Rightarrow> [] | Some a \<Rightarrow> [a])"

fun shift :: "parser_state \<Rightarrow> token \<Rightarrow> parser_state option" where
  "shift (items, cur, stack) LBrack =
     Some ([], None, ((case cur of None \<Rightarrow> InList | Some a \<Rightarrow> InSubscript a), items) # stack)"
| "shift (items, cur, []) RBrack = None"
| "shift (items, cur, (InList, outer) # stack) RBrack =
     Some (outer, Some (List (elements items cur)), stack)"
| "shift (items, cur, (InSubscript a, outer) # stack) RBrack =
     (if items = [] then
        (case cur of
           None \<Rightarrow> None
         | Some i \<Rightarrow> Some (outer, Some (Subscript a i), stack))
      else Some (outer, Some (Subscript a (Tuple (elements items cur))), stack))"
| "shift (items, cur, stack) Comma =
     (case cur of None \<Rightarrow> None | Some a \<Rightarrow> Some (a # items, None, stack))"
| "shift (items, cur, stack) (TStr s) =
     (case cur of
        None \<Rightarrow> Some (items, Some (Constant (PStr s)), stack)
      | Some (Constant (PStr t)) \<Rightarrow> Some (items, Some (Constant (PStr (t @ s))), stack)
      | Some _ \<Rightarrow> None)"
| "shift (items, cur, stack) (TNum n) =
     (case cur of None \<Rightarrow> Some (items, Some (Constant (PInt (int n))), stack) | Some _ \<Rightarrow> None)"
| "shift (items, cur, stack) (TConst v) =
     (case cur of None \<Rightarrow> Some (items, Some (Constant v), stack) | Some _ \<Rightarrow> None)"
| "shift (items, cur, stack) (TName x) =
     (case cur of None \<Rightarrow> Some (items, Some (Name x), stack) | Some _ \<Rightarrow> None)"

text \<open>At the end of the text every bracket must be closed and an expression must be there.\<close>

fun finish :: "parser_state \<Rightarrow> ast option" where
  "finish (items, cur, []) = (if items = [] then cur else Some (Tuple (elements items cur)))"
| "finish (items, cur, b # stack) = None"

fun parse_from :: "parser_state \<Rightarrow> token list \<Rightarrow> ast option" where
  "parse_from st [] = finish st"
| "parse_from st (t # ts) =
     (case shift st t of None \<Rightarrow> None | Some st' \<Rightarrow> parse_from st' ts)"

definition parse :: "token list \<Rightarrow> ast option" where
  "parse ts = parse_from ([], None, []) ts"

text \<open>
  \<open>_convert\<close> of \<open>literal_eval\<close>: a constant is its value, a list or tuple display the
  list or tuple of its converted elements; every other node is malformed.
\<close>

fun convert :: "ast \<Rightarrow> pyval option" where
  "convert (Constant v) = Some v"
| "convert (List elts) = map_option PList (those (map convert elts))"
| "convert (Tuple elts) = map_option PTuple (those (map convert elts))"
| "convert (Name x) = None"
| "convert (Subscript a i) = None"

definition py_literal_eval :: "string \<Rightarrow> pyval result" where
  "py_literal_eval s =
     (if length s > 400 then Unmodelled
      else
        (case tokenize s of
           Unmodelled \<Rightarrow> Unmodelled
         | Raise e \<Rightarrow> Raise e
         | Return ts \<Rightarrow>
             (case parse ts of
                None \<Rightarrow> Raise SyntaxError
              | Some a \<Rightarrow>
                  (case convert a of
                     None \<Rightarrow> Raise ValueError
                   | Some v \<Rightarrow> Return v))))"

subsection \<open>\<open>planning_agent\<close>\<close>

definition PLANNER_MODEL :: string where
  "PLANNER_MODEL = ''openai:o4-mini''"


definition WRITER_MODEL :: string where
  "WRITER_MODEL = ''openai:gpt-4o''"

definition EDITOR_MODEL :: string where
  "EDITOR_MODEL = ''openai:o4-mini''"

definition planner_prompt :: "string \<Rightarrow> string" where
  \<open>planner_prompt topic =
     ''\<newline>    You are a Research Architect. Decompose the topic "'' @ topic
     @ ''" into 4-5 \<newline>    atomic, sequential research steps. ''
     @ ''Return ONLY a valid Python list of strings.\<newline>    ''\<close>

definition planner_request :: "string \<Rightarrow> request" where
  "planner_request topic =
     \<lparr>model = PLANNER_MODEL, messages = [(''user'', planner_prompt topic)],
      temperature = Some 1\<rparr>"

text \<open>
  Lines 47 to 49, on the text of the response:
  \<open>plan = ast.literal_eval(match.group()) if match else [topic]\<close>.
  Nothing catches what \<open>literal_eval\<close> raises.
\<close>

definition extract_plan :: "env \<Rightarrow> string \<Rightarrow> string \<Rightarrow> pyval result" where
  "extract_plan e topic content =
     (case search_list content of
        Some m \<Rightarrow> literal_eval e m
      | None \<Rightarrow> Return (PList [PStr topic]))"

text \<open>The plan is shown item by item (\<open>f"- {s}" for s in plan\<close>), then returned.\<close>

definition planning_agent :: "env \<Rightarrow> string \<Rightarrow> pyval io" where
  "planning_agent e topic =
     io_bind (chat e (planner_request topic)) (\<lambda>content.
     io_bind (io_lift (extract_plan e topic content)) (\<lambda>plan.
     io_bind (io_lift (py_iter plan)) (\<lambda>items.
     io_bind (display (PlanShown (map (fmt e) items))) (\<lambda>_.
     io_return plan))))"

section \<open>The step researcher\<close>




section \<open>The writer and the editor\<close>

definition draft_request :: "string \<Rightarrow> string \<Rightarrow> request" where
  "draft_request topic data =
     \<lparr>model = WRITER_MODEL,
      messages = [(''user'', ''Draft an in-depth report on '' @ topic @ '' using: '' @ data)],
      temperature = None\<rparr>"

definition critique_request :: "string \<Rightarrow> request" where
  "critique_request draft =
     \<lparr>model = EDITOR_MODEL,
      messages =
        [(''user'', ''Critique this for academic depth and accuracy:\<newline>'' @ draft)],
      temperature = None\<rparr>"

definition revise_prompt :: "string \<Rightarrow> string \<Rightarrow> string" where
  "revise_prompt reflection draft =
     ''Critique: '' @ reflection @ ''\<newline>\<newline>Draft: '' @ draft"

definition revise_request :: "string \<Rightarrow> string \<Rightarrow> request" where
  "revise_request reflection draft =
     \<lparr>model = WRITER_MODEL,
      messages =
        [(''system'', ''Revise based on critique.''),
         (''user'', revise_prompt reflection draft)],
      temperature = None\<rparr>"

definition drafting_reflection_loop :: "env \<Rightarrow> string \<Rightarrow> string \<Rightarrow> string io" where
  "drafting_reflection_loop e topic data =
     io_bind (chat e (draft_request topic data)) (\<lambda>draft.
     io_bind (display DraftingDone) (\<lambda>_.
     io_bind (chat e (critique_request draft)) (\<lambda>reflection.
     io_bind (display (CritiqueShown reflection)) (\<lambda>_.
     io_bind (chat e (revise_request reflection draft)) (\<lambda>final_report.
     io_return final_report)))))"

section \<open>The executor\<close>




section \<open>Auxiliary notions for the properties\<close>


text \<open>The ratio that \<open>score_of\<close> returns for the URLs of a finding.\<close>

definition ratio :: "string list \<Rightarrow> rat" where
  "ratio urls = (if urls = [] then 0 else of_nat (length (trusted_of urls)) / of_nat (length urls))"

text \<open>
  An environment for the examples: the gateway answers call number \<open>k\<close> with \<open>f k\<close>, the
  decoder is the model of \<open>ast.literal_eval\<close>. The date and \<open>str()\<close> are fixed; they do not
  enter any example.
\<close>

definition answering :: "(nat \<Rightarrow> string) \<Rightarrow> env" where
  "answering f =
     \<lparr>gateway = (\<lambda>k req. Return (f k)), literal_eval = py_literal_eval,
      today = (\<lambda>k. ''2026-11-04''), str_of = (\<lambda>v. [])\<rparr>"

definition start :: world where
  "start = \<lparr>calls = [], shown = []\<rparr>"





section \<open>Properties of the evaluator\<close>

lemma score_of_ratio: "score_of (trusted_of urls) urls = Return (ratio urls)"
  by (simp add: score_of_def truediv_def ratio_def)

lemma eval_error_analysis_eq:
  "eval_error_analysis text w =
     (Return (status_of (ratio (findall_urls text))),
      w\<lparr>shown := shown w @ [QualityShown (status_of (ratio (findall_urls text)))
                               (ratio (findall_urls text))]\<rparr>)"
  by (simp add: eval_error_analysis_def score_of_ratio io_bind_def io_lift_def display_def
      io_return_def Let_def)











text \<open>
  Claim C10. For every input text, the empty one and those without URLs included, the
  evaluator returns a verdict and does not raise: the division is only reached with a
  non-empty URL list, and the score is 0 otherwise.
\<close>

theorem evaluator_total:
  "\<exists>status score.
     eval_error_analysis text w
       = (Return status, w\<lparr>shown := shown w @ [QualityShown status score]\<rparr>)
     \<and> score_of (trusted_of (findall_urls text)) (findall_urls text) = Return score
     \<and> score = (if findall_urls text = [] then 0
                else of_nat (length (trusted_of (findall_urls text)))
                     / of_nat (length (findall_urls text)))"
  by (simp add: eval_error_analysis_eq score_of_ratio ratio_def)

theorem evaluator_total_witness:
  "eval_error_analysis [] \<lparr>calls = [], shown = []\<rparr>
     = (Return ''FAIL (Low Credibility)'',
        \<lparr>calls = [], shown = [QualityShown ''FAIL (Low Credibility)'' 0]\<rparr>)"
  using evaluator_total [of "[]" "\<lparr>calls = [], shown = []\<rparr>"]
  by (auto simp: eval_error_analysis_eq ratio_def status_of_def)

text \<open>
  Claim C2. For every finding the status is PASS exactly when the score is strictly
  greater than one half, and FAIL otherwise; a finding of which exactly half of the URLs
  are trusted has score one half and fails, and a finding without URLs has score 0 and
  fails.
\<close>

theorem pass_iff_score_above_half:
  "\<exists>score.
     score_of (trusted_of (findall_urls text)) (findall_urls text) = Return score
     \<and> (fst (eval_error_analysis text w) = Return ''PASS'' \<longleftrightarrow> score > 1 / 2)
     \<and> (fst (eval_error_analysis text w) = Return ''FAIL (Low Credibility)''
          \<longleftrightarrow> score \<le> 1 / 2)
     \<and> (findall_urls text \<noteq> []
          \<and> 2 * length (trusted_of (findall_urls text)) = length (findall_urls text)
        \<longrightarrow> score = 1 / 2
            \<and> fst (eval_error_analysis text w) = Return ''FAIL (Low Credibility)'')
     \<and> (findall_urls text = []
        \<longrightarrow> score = 0
            \<and> fst (eval_error_analysis text w) = Return ''FAIL (Low Credibility)'')"
proof -
  let ?urls = "findall_urls text"
  have half: "ratio ?urls = 1 / 2"
    if "?urls \<noteq> []" "2 * length (trusted_of ?urls) = length ?urls"
  proof -
    from that have n: "length (trusted_of ?urls) \<noteq> 0" by auto
    have "ratio ?urls = of_nat (length (trusted_of ?urls))
                          / of_nat (2 * length (trusted_of ?urls))"
      using that by (simp add: ratio_def)
    also have "\<dots> = 1 / 2" using n by simp
    finally show ?thesis .
  qed
  have zero: "ratio ?urls = 0" if "?urls = []"
    using that by (simp add: ratio_def)
  show ?thesis
    using half zero
    by (intro exI [of _ "ratio ?urls"])
       (auto simp: score_of_ratio eval_error_analysis_eq status_of_def)
qed

theorem pass_iff_score_above_half_witness:
  "findall_urls ''https://arxiv.org/abs/1 https://example.com/x''
     = [''https://arxiv.org/abs/1'', ''https://example.com/x'']
   \<and> trusted_of [''https://arxiv.org/abs/1'', ''https://example.com/x'']
     = [''https://arxiv.org/abs/1'']
   \<and> score_of [''https://arxiv.org/abs/1'']
        [''https://arxiv.org/abs/1'', ''https://example.com/x''] = Return (1 / 2)
   \<and> fst (eval_error_analysis ''https://arxiv.org/abs/1 https://example.com/x''
            \<lparr>calls = [], shown = []\<rparr>) = Return ''FAIL (Low Credibility)''"
proof -
  let ?t = "''https://arxiv.org/abs/1 https://example.com/x''"
  have u: "findall_urls ?t = [''https://arxiv.org/abs/1'', ''https://example.com/x'']"
    by code_simp
  have t: "trusted_of [''https://arxiv.org/abs/1'', ''https://example.com/x'']
             = [''https://arxiv.org/abs/1'']"
    by code_simp
  from pass_iff_score_above_half [of ?t "\<lparr>calls = [], shown = []\<rparr>"]
  show ?thesis
    unfolding u t by auto
qed



section \<open>Properties of the planner\<close>

lemma planning_agent_result:
  assumes "gateway e (length (calls w)) (planner_request topic) = Return content"
  shows "planning_agent e topic w =
     (case extract_plan e topic content of
        Return plan \<Rightarrow>
          (case py_iter plan of
             Return items \<Rightarrow>
               (Return plan,
                w\<lparr>calls := calls w @ [planner_request topic],
                  shown := shown w @ [PlanShown (map (fmt e) items)]\<rparr>)
           | Raise x \<Rightarrow> (Raise x, w\<lparr>calls := calls w @ [planner_request topic]\<rparr>)
           | Unmodelled \<Rightarrow> (Unmodelled, w\<lparr>calls := calls w @ [planner_request topic]\<rparr>))
      | Raise x \<Rightarrow> (Raise x, w\<lparr>calls := calls w @ [planner_request topic]\<rparr>)
      | Unmodelled \<Rightarrow> (Unmodelled, w\<lparr>calls := calls w @ [planner_request topic]\<rparr>))"
  using assms
  by (simp add: planning_agent_def io_bind_def chat_def io_lift_def display_def io_return_def
      split: result.splits)

lemma answering_simps:
  "gateway (answering f) k req = Return (f k)"
  "literal_eval (answering f) = py_literal_eval"
  by (simp_all add: answering_def)

text \<open>
  Claim C1, at a response that the code cannot decode. The planner answers
  \<open>[step one, step two]\<close>, a list whose items are not quoted. The bracketed text is found,
  \<open>literal_eval\<close> raises \<open>SyntaxError\<close>, and \<open>planning_agent\<close> raises it in turn: it does not
  return the plan \<open>[topic]\<close>.
\<close>

theorem planning_agent_raises_on_undecodable_list:
  "planning_agent (answering (\<lambda>k. ''[step one, step two]'')) ''X'' start
     = (Raise SyntaxError, \<lparr>calls = [planner_request ''X''], shown = []\<rparr>)"
proof -
  have s: "search_list ''[step one, step two]'' = Some ''[step one, step two]''"
    by code_simp
  have d: "py_literal_eval ''[step one, step two]'' = Raise SyntaxError"
    by code_simp
  show ?thesis
    by (simp add: planning_agent_result [where content = "''[step one, step two]''"]
        answering_simps extract_plan_def s d start_def)
qed

text \<open>
  Claim C3, at a response that holds a list of strings and a second bracket after it:
  \<open>["step1", "step2"] ["step3"]\<close>. The search runs from the first \<open>[\<close> to the last \<open>]\<close>,
  so the whole response is decoded, as a subscript; \<open>literal_eval\<close> raises \<open>ValueError\<close>
  and the planner returns no plan.
\<close>

theorem planning_agent_takes_up_to_last_bracket:
  \<open>search_list ''["step1", "step2"] ["step3"]'' = Some ''["step1", "step2"] ["step3"]''
   \<and> planning_agent (answering (\<lambda>k. ''["step1", "step2"] ["step3"]'')) ''X'' start
     = (Raise ValueError, \<lparr>calls = [planner_request ''X''], shown = []\<rparr>)\<close>
proof -
  have s: \<open>search_list ''["step1", "step2"] ["step3"]'' = Some ''["step1", "step2"] ["step3"]''\<close>
    by code_simp
  have d: \<open>py_literal_eval ''["step1", "step2"] ["step3"]'' = Raise ValueError\<close>
    by code_simp
  show ?thesis
    by (simp add: planning_agent_result [where content = \<open>''["step1", "step2"] ["step3"]''\<close>]
        answering_simps extract_plan_def s d start_def)
qed

text \<open>
  What \<open>search_list\<close> finds, said without the list functions: the text splits into a part
  without \<open>[\<close>, the match from \<open>[\<close> to \<open>]\<close>, and a part without \<open>]\<close>.
\<close>

lemma search_list_Some_iff:
  "search_list content = Some m \<longleftrightarrow>
     (\<exists>pre mid post.
        content = pre @ CHR ''['' # mid @ CHR '']'' # post
        \<and> CHR ''['' \<notin> set pre \<and> CHR '']'' \<notin> set post
        \<and> m = CHR ''['' # mid @ [CHR '']''])"
proof
  assume a: "search_list content = Some m"
  let ?s = "dropWhile (\<lambda>c. c \<noteq> CHR ''['') content"
  let ?pre = "takeWhile (\<lambda>c. c \<noteq> CHR ''['') content"
  from a have ne: "?s \<noteq> []" and cl: "CHR '']'' \<in> set (tl ?s)"
    and m: "m = rev (dropWhile (\<lambda>c. c \<noteq> CHR '']'') (rev ?s))"
    by (auto simp: search_list_def Let_def split: if_splits)
  from ne have h: "hd ?s = CHR ''[''" using hd_dropWhile [of "\<lambda>c. c \<noteq> CHR ''[''" content] by simp
  with ne obtain t where s: "?s = CHR ''['' # t" by (cases ?s) auto
  with cl have "CHR '']'' \<in> set t" by simp
  then obtain mid post where t: "t = mid @ CHR '']'' # post" and np: "CHR '']'' \<notin> set post"
    by (meson split_list_last)
  have pre: "CHR ''['' \<notin> set ?pre" by (auto dest: set_takeWhileD)
  have c: "content = ?pre @ CHR ''['' # mid @ CHR '']'' # post"
    using takeWhile_dropWhile_id [of "\<lambda>c. c \<noteq> CHR ''[''" content] s t by simp
  have "dropWhile (\<lambda>c. c \<noteq> CHR '']'') (rev ?s) = CHR '']'' # rev mid @ [CHR ''['']"
    using np by (auto simp: s t dropWhile_append3)
  with m have "m = CHR ''['' # mid @ [CHR '']'']" by simp
  with c pre np show "\<exists>pre mid post.
        content = pre @ CHR ''['' # mid @ CHR '']'' # post
        \<and> CHR ''['' \<notin> set pre \<and> CHR '']'' \<notin> set post
        \<and> m = CHR ''['' # mid @ [CHR '']'']" by blast
next
  assume "\<exists>pre mid post.
        content = pre @ CHR ''['' # mid @ CHR '']'' # post
        \<and> CHR ''['' \<notin> set pre \<and> CHR '']'' \<notin> set post
        \<and> m = CHR ''['' # mid @ [CHR '']'']"
  then obtain pre mid post where c: "content = pre @ CHR ''['' # mid @ CHR '']'' # post"
    and pre: "CHR ''['' \<notin> set pre" and np: "CHR '']'' \<notin> set post"
    and m: "m = CHR ''['' # mid @ [CHR '']'']" by blast
  have s: "dropWhile (\<lambda>c. c \<noteq> CHR ''['') content = CHR ''['' # mid @ CHR '']'' # post"
    using pre by (auto simp: c dropWhile_append3)
  have d: "dropWhile (\<lambda>c. c \<noteq> CHR '']'') (rev post @ CHR '']'' # rev mid @ [CHR ''['']) 
           = CHR '']'' # rev mid @ [CHR ''['']"
    using np by (auto simp: dropWhile_append3)
  show "search_list content = Some m"
    using d by (simp add: search_list_def s m)
qed







section \<open>Properties of the executor and of the writer and editor\<close>




lemma drafting_reflection_loop_run:
  assumes "gateway e (length (calls w)) (draft_request topic data) = Return draft"
    and "gateway e (length (calls w) + 1) (critique_request draft) = Return reflection"
    and "gateway e (length (calls w) + 2) (revise_request reflection draft) = Return final_report"
  shows "drafting_reflection_loop e topic data w =
     (Return final_report,
      w\<lparr>calls := calls w @ [draft_request topic data, critique_request draft,
                             revise_request reflection draft],
        shown := shown w @ [DraftingDone, CritiqueShown reflection]\<rparr>)"
  using assms
  by (simp add: drafting_reflection_loop_def io_bind_def chat_def display_def io_return_def)








text \<open>
  Claim C8. For every topic and corpus, when the gateway answers, the engine makes its
  three calls once each and in the order draft, critique, revise; the critique prompt
  holds the whole draft and the revise prompt holds the whole critique and the whole
  draft, unchanged; the engine returns the answer to the revise call.
\<close>

theorem drafting_reflection_three_phases:
  assumes "gateway e (length (calls w)) (draft_request topic data) = Return draft"
    and "gateway e (length (calls w) + 1) (critique_request draft) = Return reflection"
    and "gateway e (length (calls w) + 2) (revise_request reflection draft) = Return final_report"
  shows "drafting_reflection_loop e topic data w =
     (Return final_report,
      w\<lparr>calls := calls w @ [draft_request topic data, critique_request draft,
                             revise_request reflection draft],
        shown := shown w @ [DraftingDone, CritiqueShown reflection]\<rparr>)
    \<and> messages (draft_request topic data)
        = [(''user'', ''Draft an in-depth report on '' @ topic @ '' using: '' @ data)]
    \<and> messages (critique_request draft)
        = [(''user'', ''Critique this for academic depth and accuracy:\<newline>'' @ draft)]
    \<and> messages (revise_request reflection draft)
        = [(''system'', ''Revise based on critique.''),
           (''user'', ''Critique: '' @ reflection @ ''\<newline>\<newline>Draft: '' @ draft)]"
  using drafting_reflection_loop_run [OF assms]
  by (simp add: draft_request_def critique_request_def revise_request_def revise_prompt_def)

theorem drafting_reflection_three_phases_witness:
  "drafting_reflection_loop (answering (\<lambda>k. [''the draft'', ''too shallow'', ''the report''] ! k))
     ''X'' ''corpus'' start
   = (Return ''the report'',
      \<lparr>calls = [draft_request ''X'' ''corpus'', critique_request ''the draft'',
                 revise_request ''too shallow'' ''the draft''],
       shown = [DraftingDone, CritiqueShown ''too shallow'']\<rparr>)
   \<and> messages (revise_request ''too shallow'' ''the draft'')
      = [(''system'', ''Revise based on critique.''),
         (''user'', ''Critique: too shallow\<newline>\<newline>Draft: the draft'')]"
proof -
  let ?e = "answering (\<lambda>k. [''the draft'', ''too shallow'', ''the report''] ! k)"
  have 1: "gateway ?e (length (calls start)) (draft_request ''X'' ''corpus'') = Return ''the draft''"
    by (simp add: answering_simps start_def)
  have 2: "gateway ?e (length (calls start) + 1) (critique_request ''the draft'')
             = Return ''too shallow''"
    by (simp add: answering_simps start_def)
  have 3: "gateway ?e (length (calls start) + 2) (revise_request ''too shallow'' ''the draft'')
             = Return ''the report''"
    by (simp add: answering_simps start_def)
  from drafting_reflection_three_phases [OF 1 2 3] show ?thesis
    by (simp add: start_def)
qed



end
